theory Spec2Isabelle
  imports Main "HOL-Library.Word"
begin

section \<open>Python values and strings\<close>

text \<open>
  The service is one Python module, \<^verbatim>\<open>app.py\<close>: a parser for the model's reply
  (\<^verbatim>\<open>parse_llm_response\<close>), the caller of the generation API
  (\<^verbatim>\<open>call_ai_service\<close>) and the HTTP handler (\<^verbatim>\<open>summarize_transcript\<close>).

  A Python \<^verbatim>\<open>str\<close> is modelled as a \<^typ>\<open>string\<close> in which every \<^typ>\<open>char\<close> stands for
  one code point below 256 (the Latin-1 range), so \<^term>\<open>length\<close> is Python's \<^verbatim>\<open>len\<close>.
  The values the handler moves around before it knows they are strings (a decoded JSON
  body, the \<^verbatim>\<open>transcript_text\<close> variable, the argument of the parser) are
  \<open>pyval\<close>s. A float is kept as the bit pattern of its IEEE double, of which the code
  only observes whether it is zero.
\<close>

datatype pyval =
    PyNone
  | PyBool bool
  | PyInt int
  | PyFloat "64 word"
  | PyStr string
  | PyList "pyval list"
  | PyDict "(string \<times> pyval) list"

text \<open>Python's truth value of an object, as \<^verbatim>\<open>if x\<close> and \<^verbatim>\<open>not x\<close> test it.\<close>

fun truthy :: "pyval \<Rightarrow> bool" where
  "truthy PyNone = False"
| "truthy (PyBool b) = b"
| "truthy (PyInt i) = (i \<noteq> 0)"
| "truthy (PyFloat w) = (w \<noteq> 0 \<and> w \<noteq> 0x8000000000000000)"
| "truthy (PyStr s) = (s \<noteq> [])"
| "truthy (PyList xs) = (xs \<noteq> [])"
| "truthy (PyDict kvs) = (kvs \<noteq> [])"

text \<open>
  The exceptions that leave a function of the module: TypeError from \<^verbatim>\<open>re.search\<close>
  on an argument that is not a string, AttributeError from \<^verbatim>\<open>data.get\<close> on a JSON
  body that is not an object, and BadRequest from \<^verbatim>\<open>request.get_json()\<close> on a body
  that is not JSON.
\<close>

datatype py_exn = TypeError | AttributeError | BadRequest

subsection \<open>Character classes\<close>

text \<open>
  \<^verbatim>\<open>str.isspace\<close> on the code points below 256: TAB, LF, VT, FF, CR, the four
  separators FS, GS, RS, US, the space, NEL and the no-break space. The same set is what
  \<^verbatim>\<open>\s\<close> matches in a \<^verbatim>\<open>str\<close> pattern and what \<^verbatim>\<open>str.strip()\<close> removes.
\<close>

definition whitespace :: "char list" where
  "whitespace = [CHR 0x09, CHR 0x0A, CHR 0x0B, CHR 0x0C, CHR 0x0D, CHR 0x1C, CHR 0x1D,
     CHR 0x1E, CHR 0x1F, CHR 0x20, CHR 0x85, CHR 0xA0]"

definition isspace :: "char \<Rightarrow> bool" where
  "isspace c = (c \<in> set whitespace)"

text \<open>The line boundaries of \<^verbatim>\<open>str.splitlines()\<close> below 256 (CR LF counts once).\<close>

definition line_boundaries :: "char list" where
  "line_boundaries = [CHR 0x0A, CHR 0x0B, CHR 0x0C, CHR 0x0D, CHR 0x1C, CHR 0x1D,
     CHR 0x1E, CHR 0x85]"

definition is_linebreak :: "char \<Rightarrow> bool" where
  "is_linebreak c = (c \<in> set line_boundaries)"

text \<open>
  The upper-case letters below 256 and their lower-case partners: A to Z, and the
  Latin-1 capitals 0xC0 to 0xDE without the multiplication sign 0xD7.
\<close>

definition upper_letters :: "char list" where
  "upper_letters = ''ABCDEFGHIJKLMNOPQRSTUVWXYZ'' @
     [CHR 0xC0, CHR 0xC1, CHR 0xC2, CHR 0xC3, CHR 0xC4, CHR 0xC5, CHR 0xC6, CHR 0xC7,
      CHR 0xC8, CHR 0xC9, CHR 0xCA, CHR 0xCB, CHR 0xCC, CHR 0xCD, CHR 0xCE, CHR 0xCF,
      CHR 0xD0, CHR 0xD1, CHR 0xD2, CHR 0xD3, CHR 0xD4, CHR 0xD5, CHR 0xD6,
      CHR 0xD8, CHR 0xD9, CHR 0xDA, CHR 0xDB, CHR 0xDC, CHR 0xDD, CHR 0xDE]"

definition lower_letters :: "char list" where
  "lower_letters = ''abcdefghijklmnopqrstuvwxyz'' @
     [CHR 0xE0, CHR 0xE1, CHR 0xE2, CHR 0xE3, CHR 0xE4, CHR 0xE5, CHR 0xE6, CHR 0xE7,
      CHR 0xE8, CHR 0xE9, CHR 0xEA, CHR 0xEB, CHR 0xEC, CHR 0xED, CHR 0xEE, CHR 0xEF,
      CHR 0xF0, CHR 0xF1, CHR 0xF2, CHR 0xF3, CHR 0xF4, CHR 0xF5, CHR 0xF6,
      CHR 0xF8, CHR 0xF9, CHR 0xFA, CHR 0xFB, CHR 0xFC, CHR 0xFD, CHR 0xFE]"

definition tolower :: "char \<Rightarrow> char" where
  "tolower c = (case map_of (zip upper_letters lower_letters) c of
                  Some l \<Rightarrow> l | None \<Rightarrow> c)"

subsection \<open>The string methods the module calls\<close>

definition str_lower :: "string \<Rightarrow> string" where
  "str_lower s = map tolower s"

definition str_strip :: "string \<Rightarrow> string" where
  "str_strip s = rev (dropWhile isspace (rev (dropWhile isspace s)))"

definition str_startswith :: "string \<Rightarrow> string \<Rightarrow> bool" where
  "str_startswith s p = (take (length p) s = p)"

text \<open>\<^verbatim>\<open>s.split('\n')\<close>: the pieces between line feeds; the empty string gives one empty piece.\<close>

fun str_split_nl :: "string \<Rightarrow> string list" where
  "str_split_nl [] = [[]]"
| "str_split_nl (c # cs) =
     (if c = CHR 0x0A then [] # str_split_nl cs
      else (case str_split_nl cs of
              [] \<Rightarrow> [[c]]
            | l # ls \<Rightarrow> (c # l) # ls))"

text \<open>
  \<^verbatim>\<open>s.splitlines()\<close>: lines without their terminators; no line after a final
  terminator, and no line at all for the empty string.
\<close>

fun str_splitlines :: "string \<Rightarrow> string list" where
  "str_splitlines [] = []"
| "str_splitlines [c] = (if is_linebreak c then [[]] else [[c]])"
| "str_splitlines (c # d # cs) =
     (if c = CHR 0x0D \<and> d = CHR 0x0A then [] # str_splitlines cs
      else if is_linebreak c then [] # str_splitlines (d # cs)
      else (case str_splitlines (d # cs) of
              [] \<Rightarrow> [[c]]
            | l # ls \<Rightarrow> (c # l) # ls))"

text \<open>\<^verbatim>\<open>"\n".join(xs)\<close>.\<close>

fun join_nl :: "string list \<Rightarrow> string" where
  "join_nl [] = []"
| "join_nl [x] = x"
| "join_nl (x # y # ys) = x @ CHR 0x0A # join_nl (y # ys)"

section \<open>The three regular expressions\<close>

text \<open>
  All three searches are compiled with \<^verbatim>\<open>re.IGNORECASE | re.DOTALL\<close>. The
  literals of the three patterns are ASCII letters, the colon and the space. Under
  IGNORECASE a character of the subject matches a literal when both have the same lower
  case: a letter matches its two cases, the colon and the space only themselves. Under
  DOTALL the dot matches every character, the line feed included.
\<close>

definition literal_ignorecase :: "char \<Rightarrow> char \<Rightarrow> bool" where
  "literal_ignorecase p c = (tolower c = tolower p)"

text \<open>Matching a literal at the start of the subject: what is left after it.\<close>

fun match_literal :: "string \<Rightarrow> string \<Rightarrow> string option" where
  "match_literal [] s = Some s"
| "match_literal (p # ps) [] = None"
| "match_literal (p # ps) (c # cs) =
     (if literal_ignorecase p c then match_literal ps cs else None)"

text \<open>
  \<^verbatim>\<open>(.*?)B\<close> at the start of the subject: the lazy group takes as few characters
  as it can, so it ends at the first place where \<open>B\<close> matches.
\<close>

fun lazy_group_until :: "string \<Rightarrow> string \<Rightarrow> string option" where
  "lazy_group_until b [] = (if match_literal b [] = None then None else Some [])"
| "lazy_group_until b (c # cs) =
     (if match_literal b (c # cs) = None
      then map_option ((#) c) (lazy_group_until b cs)
      else Some [])"

text \<open>\<^verbatim>\<open>A(.*?)B\<close> matched at the start of the subject: group 1.\<close>

definition match_between :: "string \<Rightarrow> string \<Rightarrow> string \<Rightarrow> string option" where
  "match_between a b s =
     (case match_literal a s of
        None \<Rightarrow> None
      | Some rest \<Rightarrow> lazy_group_until b rest)"

text \<open>
  \<^verbatim>\<open>re.search(r"A(.*?)B", s, re.IGNORECASE | re.DOTALL)\<close>: the match at the
  leftmost position that has one; the result is group 1 of it.
\<close>

fun search_between :: "string \<Rightarrow> string \<Rightarrow> string \<Rightarrow> string option" where
  "search_between a b [] = match_between a b []"
| "search_between a b (c # cs) =
     (case match_between a b (c # cs) of
        Some g \<Rightarrow> Some g
      | None \<Rightarrow> search_between a b cs)"

text \<open>
  \<^verbatim>\<open>re.search(r"A(.*)", s, re.IGNORECASE | re.DOTALL)\<close>: the greedy group runs to
  the end of the subject, so group 1 is everything after the leftmost \<open>A\<close>.
\<close>

fun search_rest :: "string \<Rightarrow> string \<Rightarrow> string option" where
  "search_rest a [] = match_literal a []"
| "search_rest a (c # cs) =
     (case match_literal a (c # cs) of
        Some rest \<Rightarrow> Some rest
      | None \<Rightarrow> search_rest a cs)"

text \<open>
  \<^verbatim>\<open>re.sub(r"^\s*[\*\-]\s*", "", d)\<close>: the pattern is anchored at the start, so it
  matches at most once: leading white space, one bullet character, white space again.
  A string that does not begin that way is returned unchanged.
\<close>

definition strip_bullet :: "string \<Rightarrow> string" where
  "strip_bullet d =
     (case dropWhile isspace d of
        [] \<Rightarrow> d
      | c # cs \<Rightarrow> if c = CHR ''*'' \<or> c = CHR ''-'' then dropWhile isspace cs else d)"

section \<open>The response parser\<close>

record parsed_result =
  summary :: string
  decisions :: "string list"
  action_items :: "string list"

text \<open>
  Lines 53 to 55, and again 63 to 65: the lines of a section, trimmed; bullets removed;
  empty entries dropped.
\<close>

definition bullet_lines :: "string \<Rightarrow> string list" where
  "bullet_lines body =
     (let kept = [str_strip d. d \<leftarrow> str_split_nl body,
                    str_startswith (str_strip d) ''*'' \<or> str_startswith (str_strip d) ''-''
                    \<or> str_strip d \<noteq> []];
          unbulleted = [str_strip (strip_bullet d). d \<leftarrow> kept, str_strip d \<noteq> []]
      in [d. d \<leftarrow> unbulleted, d \<noteq> []])"

text \<open>
  Lines 51 to 57 (decisions) and 61 to 67 (action items), the same code on two
  variables: \<open>current\<close> is the list before the block, \<open>captured\<close> is group 1 of
  the match.
\<close>

definition section_items :: "string list \<Rightarrow> string \<Rightarrow> string list" where
  "section_items current captured =
     (let body = str_strip captured;
          items = (if str_lower body \<noteq> ''none'' then bullet_lines body else current)
      in if items = [] \<and> str_lower body \<noteq> ''none'' \<and> body \<noteq> []
         then (if body \<noteq> [] then [body] else [])
         else items)"

definition section_summary :: "string \<Rightarrow> string" where
  "section_summary captured =
     (let summary_text = str_strip captured
      in if str_lower summary_text \<noteq> ''none'' then summary_text else ''None provided.'')"

definition initial_locals :: parsed_result where
  "initial_locals =
     \<lparr>summary = ''Could not parse summary.'', decisions = [], action_items = []\<rparr>"

definition first_few_lines :: "string \<Rightarrow> string" where
  "first_few_lines response_text = join_nl (take 5 (str_splitlines response_text))"

text \<open>
  The body of the \<^verbatim>\<open>try\<close> block (lines 36 to 75) on a string: the three
  searches, the three sections, and the fallback when no search matched.
\<close>

definition extract_sections :: "string \<Rightarrow> parsed_result" where
  "extract_sections response_text =
     (let summary_match = search_between ''Summary:'' ''Key Decisions:'' response_text;
          decisions_match = search_between ''Key Decisions:'' ''Action Items:'' response_text;
          action_items_match = search_rest ''Action Items:'' response_text;
          s1 = (case summary_match of
                  None \<Rightarrow> summary initial_locals
                | Some g \<Rightarrow> section_summary g);
          ds = (case decisions_match of
                  None \<Rightarrow> decisions initial_locals
                | Some g \<Rightarrow> section_items (decisions initial_locals) g);
          ais = (case action_items_match of
                  None \<Rightarrow> action_items initial_locals
                | Some g \<Rightarrow> section_items (action_items initial_locals) g);
          s2 = (if summary_match = None \<and> decisions_match = None
                   \<and> action_items_match = None \<and> response_text \<noteq> []
                then (if length (first_few_lines response_text) > 20
                      then first_few_lines response_text
                             @ '' (Note: Full structure parsing failed)''
                      else s1)
                else s1)
      in \<lparr>summary = s2, decisions = ds, action_items = ais\<rparr>)"

text \<open>
  The \<^verbatim>\<open>try\<close> block on any argument. \<^verbatim>\<open>re.search\<close> raises TypeError on an
  argument that is not a string; that is the first statement of the block, so the
  locals still hold their initial values. On a string no statement of the block
  raises. \<open>Inl\<close> carries the exception and the locals at the raise.
\<close>

definition try_block :: "pyval \<Rightarrow> (py_exn \<times> parsed_result) + parsed_result" where
  "try_block response_text =
     (case response_text of
        PyStr s \<Rightarrow> Inr (extract_sections s)
      | _ \<Rightarrow> Inl (TypeError, initial_locals))"

text \<open>The \<^verbatim>\<open>except\<close> clause (lines 78 to 80) only assigns the summary.\<close>

definition locals_at_return :: "pyval \<Rightarrow> parsed_result" where
  "locals_at_return response_text =
     (case try_block response_text of
        Inr l \<Rightarrow> l
      | Inl (e, l) \<Rightarrow>
          l\<lparr>summary := ''Error parsing LLM output. Raw output might be available in logs.''\<rparr>)"

text \<open>The element of the stand-in list in the \<^verbatim>\<open>return\<close> statement (lines 86, 87).\<close>

definition placeholder :: "string \<Rightarrow> string" where
  "placeholder s = (if str_startswith s ''Error parsing'' then '''' else ''None identified.'')"

definition parse_llm_response :: "pyval \<Rightarrow> parsed_result" where
  "parse_llm_response response_text =
     (let l = locals_at_return response_text
      in \<lparr>summary = summary l,
          decisions = (if decisions l \<noteq> [] then decisions l else [placeholder (summary l)]),
          action_items =
            (if action_items l \<noteq> [] then action_items l else [placeholder (summary l)])\<rparr>)"

section \<open>The caller of the generation API\<close>

text \<open>
  The process-wide configuration: \<^verbatim>\<open>GOOGLE_API_KEY\<close> as \<^verbatim>\<open>os.getenv\<close> returned it,
  and whether the client library has a \<^verbatim>\<open>GenerativeModel\<close>.
\<close>

record config =
  google_api_key :: "string option"
  has_generative_model :: bool

definition api_key_set :: "config \<Rightarrow> bool" where
  "api_key_set cfg = (case google_api_key cfg of None \<Rightarrow> False | Some k \<Rightarrow> k \<noteq> [])"

text \<open>
  What lines 105 to 152 come to for a transcript: building the client and the prompt (a
  fixed template around the transcript), the one call to \<^verbatim>\<open>generate_content\<close> and
  reading \<^verbatim>\<open>response.text\<close>. Either one of these raises an exception \<open>e\<close>, kept
  as \<^verbatim>\<open>str(e)\<close>, or the reply text is there. The service is outside the module, so it is a
  parameter of the caller: a function from the transcript to this outcome.
\<close>

datatype gemini_outcome = GeminiRaises string | GeminiText string

definition call_ai_service ::
  "config \<Rightarrow> (pyval \<Rightarrow> gemini_outcome) \<Rightarrow> pyval \<Rightarrow> py_exn + parsed_result" where
  "call_ai_service cfg generate transcript_text =
     (if \<not> api_key_set cfg \<or> \<not> has_generative_model cfg
      then Inr \<lparr>summary = ''AI service is not configured.'',
                 decisions = [], action_items = []\<rparr>
      else (case generate transcript_text of
              GeminiText response_text \<Rightarrow> Inr (parse_llm_response (PyStr response_text))
            | GeminiRaises e \<Rightarrow>
                Inr \<lparr>summary = ''Error communicating with AI service: '' @ e,
                      decisions = [], action_items = []\<rparr>))"

section \<open>The HTTP handler\<close>

text \<open>
  The request as the handler reads it: \<^verbatim>\<open>request.is_json\<close>, the outcome of
  \<^verbatim>\<open>request.get_json()\<close>, and the two multi-dicts \<^verbatim>\<open>request.form\<close> and
  \<^verbatim>\<open>request.files\<close> as lists of their items, of which a lookup returns the first
  with the key. A Python dict is the list of its items too, with distinct keys. Of an
  uploaded file the handler reads the name and \<^verbatim>\<open>file.read().decode('utf-8')\<close>, which
  gives the text or raises an exception, kept as \<^verbatim>\<open>str(e)\<close>.
\<close>

record file_storage =
  filename :: string
  read_decode :: "string + string"

record request =
  is_json :: bool
  get_json :: "py_exn + pyval"
  form :: "(string \<times> string) list"
  files :: "(string \<times> file_storage) list"

datatype body = ErrorBody string | ResultBody parsed_result

type_synonym response = "body \<times> nat"

definition ALLOWED_EXTENSIONS :: "string set" where
  "ALLOWED_EXTENSIONS = {''txt''}"

text \<open>\<^verbatim>\<open>filename.rsplit('.', 1)[1]\<close> of a name with a dot: what follows the last dot.\<close>

definition extension :: "string \<Rightarrow> string" where
  "extension name = rev (takeWhile (\<lambda>c. c \<noteq> CHR ''.'') (rev name))"

definition allowed_file :: "string \<Rightarrow> bool" where
  "allowed_file name =
     (CHR ''.'' \<in> set name \<and> str_lower (extension name) \<in> ALLOWED_EXTENSIONS)"

text \<open>
  A step of the handler raises, returns a response, or goes on with a value of
  \<^verbatim>\<open>transcript_text\<close>.
\<close>

datatype flow = Raises py_exn | Returns response | Continues pyval

text \<open>Priority 1, lines 184 to 188.\<close>

definition json_source :: "request \<Rightarrow> pyval \<Rightarrow> flow" where
  "json_source req transcript_text =
     (if is_json req
      then (case get_json req of
              Inl e \<Rightarrow> Raises e
            | Inr data \<Rightarrow>
                if \<not> truthy data
                then Returns (ErrorBody ''Invalid JSON payload. Expected 'transcript_text'.'', 400)
                else (case data of
                        PyDict items \<Rightarrow>
                          Continues (case map_of items ''transcript_text'' of
                                       None \<Rightarrow> PyNone
                                     | Some v \<Rightarrow> v)
                      | _ \<Rightarrow> Raises AttributeError))
      else Continues transcript_text)"

text \<open>Priority 2, lines 191 to 194.\<close>

definition form_source :: "request \<Rightarrow> pyval \<Rightarrow> pyval" where
  "form_source req transcript_text =
     (if truthy transcript_text then transcript_text
      else (case map_of (form req) ''transcript_text'' of
              None \<Rightarrow> transcript_text
            | Some v \<Rightarrow>
                (let form_text = str_strip v
                 in if form_text \<noteq> [] then PyStr form_text else transcript_text)))"

text \<open>
  Priority 3, lines 197 to 209. A \<^verbatim>\<open>FileStorage\<close> is true exactly when its name is
  not empty.
\<close>

definition file_source :: "request \<Rightarrow> pyval \<Rightarrow> flow" where
  "file_source req transcript_text =
     (if truthy transcript_text then Continues transcript_text
      else (case map_of (files req) ''transcript_file'' of
              None \<Rightarrow> Continues transcript_text
            | Some file \<Rightarrow>
                if filename file = [] then Continues transcript_text
                else if filename file \<noteq> [] \<and> allowed_file (filename file)
                then (case read_decode file of
                        Inr decoded \<Rightarrow> Continues (PyStr decoded)
                      | Inl e \<Rightarrow> Returns (ErrorBody (''Error processing file: '' @ e), 500))
                else if filename file \<noteq> []
                then Returns (ErrorBody
                  ''Invalid file type. Please upload a .txt file or provide text via 'transcript_text'.'',
                  400)
                else Continues transcript_text))"

text \<open>Lines 211 to 220.\<close>

definition summarize ::
  "config \<Rightarrow> (pyval \<Rightarrow> gemini_outcome) \<Rightarrow> pyval \<Rightarrow> response" where
  "summarize cfg generate transcript_text =
     (if \<not> truthy transcript_text
      then (ErrorBody
        ''No transcript content provided. Use 'transcript_text' in JSON/form or 'transcript_file' for file upload.'',
        400)
      else (case call_ai_service cfg generate transcript_text of
              Inr ai_results \<Rightarrow> (ResultBody ai_results, 200)
            | Inl e \<Rightarrow>
                (ErrorBody ''An unexpected error occurred during summarization.'', 500)))"

text \<open>
  The handler: \<open>Inl\<close> is an exception that leaves it (the framework answers those),
  \<open>Inr\<close> the response it returns.
\<close>

definition summarize_transcript ::
  "config \<Rightarrow> (pyval \<Rightarrow> gemini_outcome) \<Rightarrow> request \<Rightarrow> py_exn + response" where
  "summarize_transcript cfg generate req =
     (case json_source req PyNone of
        Raises e \<Rightarrow> Inl e
      | Returns r \<Rightarrow> Inr r
      | Continues t1 \<Rightarrow>
          (case file_source req (form_source req t1) of
             Raises e \<Rightarrow> Inl e
           | Returns r \<Rightarrow> Inr r
           | Continues t3 \<Rightarrow> Inr (summarize cfg generate t3)))"

section \<open>Markers and example inputs\<close>



text \<open>Replies, configurations, services and requests the theorems below are run on.\<close>

definition error_summary_reply :: string where
  "error_summary_reply = ''Summary: Error parsing failed Key Decisions: None Action Items: None''"

definition budget_reply :: string where
  "budget_reply =
     ''Summary: Error parsing the budget file was discussed. Key Decisions: None Action Items: None''"


definition cfg_unconfigured :: config where
  "cfg_unconfigured = \<lparr>google_api_key = None, has_generative_model = True\<rparr>"

definition cfg_with_key :: config where
  "cfg_with_key = \<lparr>google_api_key = Some ''test-key'', has_generative_model = True\<rparr>"

definition service_down :: "pyval \<Rightarrow> gemini_outcome" where
  "service_down transcript_text = GeminiRaises ''503 Service Unavailable''"

definition pdf_upload :: file_storage where
  "pdf_upload = \<lparr>filename = ''notes.pdf'', read_decode = Inr ''Bob: wait.''\<rparr>"

definition pdf_with_form_text :: request where
  "pdf_with_form_text =
     \<lparr>is_json = False, get_json = Inl BadRequest,
      form = [(''transcript_text'', ''Alice: ship it.'')],
      files = [(''transcript_file'', pdf_upload)]\<rparr>"

definition pdf_only :: request where
  "pdf_only =
     \<lparr>is_json = False, get_json = Inl BadRequest, form = [],
      files = [(''transcript_file'', pdf_upload)]\<rparr>"

definition undecodable_txt :: request where
  "undecodable_txt =
     \<lparr>is_json = False, get_json = Inl BadRequest, form = [],
      files = [(''transcript_file'',
                \<lparr>filename = ''notes.txt'',
                 read_decode =
                   Inl '''utf-8' codec can't decode byte 0xff in position 0: invalid start byte''\<rparr>)]\<rparr>"

definition json_and_form :: request where
  "json_and_form =
     \<lparr>is_json = True,
      get_json = Inr (PyDict [(''transcript_text'', PyStr ''from json'')]),
      form = [(''transcript_text'', ''from form'')],
      files = []\<rparr>"

definition blank_form_only :: request where
  "blank_form_only =
     \<lparr>is_json = False, get_json = Inl BadRequest,
      form = [(''transcript_text'', ''   '')], files = []\<rparr>"

definition blank_json :: request where
  "blank_json =
     \<lparr>is_json = True,
      get_json = Inr (PyDict [(''transcript_text'', PyStr ''   '')]),
      form = [], files = []\<rparr>"

section \<open>The parser: what each local holds at the return\<close>

lemma locals_at_return_str: "locals_at_return (PyStr r) = extract_sections r"
  by (simp add: locals_at_return_def try_block_def)


lemma decisions_extract_sections:
  "decisions (extract_sections r) =
     (case search_between ''Key Decisions:'' ''Action Items:'' r of
        None \<Rightarrow> []
      | Some g \<Rightarrow> section_items [] g)"
  by (simp add: extract_sections_def Let_def initial_locals_def split: option.split)

lemma summary_parse_llm_response:
  "summary (parse_llm_response v) = summary (locals_at_return v)"
  by (simp add: parse_llm_response_def Let_def)

lemma decisions_parse_llm_response:
  "decisions (parse_llm_response v) =
     (if decisions (locals_at_return v) \<noteq> [] then decisions (locals_at_return v)
      else [placeholder (summary (locals_at_return v))])"
  by (simp add: parse_llm_response_def Let_def)

lemma section_items_none:
  "str_lower (str_strip g) = ''none'' \<Longrightarrow> section_items [] g = []"
  by (simp add: section_items_def Let_def)

lemma placeholder_parse_error:
  "placeholder ''Error parsing LLM output. Raw output might be available in logs.'' = ''''"
  by (simp add: placeholder_def str_startswith_def)

subsection \<open>A search fails where its first marker is absent\<close>





subsection \<open>Containing a marker is what the searches test\<close>




subsection \<open>What a search captures\<close>

text \<open>
  Group 1 of \<^verbatim>\<open>A(.*?)B\<close> is a piece of the subject that stands between a
  substring equal to \<open>A\<close> and a substring equal to \<open>B\<close>, both up to the case of
  their letters.
\<close>

lemma match_literal_split:
  "match_literal m s = Some rest \<Longrightarrow> \<exists>k. s = k @ rest \<and> str_lower k = str_lower m"
proof (induction m s rule: match_literal.induct)
  case (1 s)
  then show ?case by (simp add: str_lower_def)
next
  case (2 p ps)
  then show ?case by simp
next
  case (3 p ps c cs)
  then have lit: "literal_ignorecase p c" and tl: "match_literal ps cs = Some rest"
    by (auto split: if_splits)
  from 3(1) [OF lit tl] obtain k where k: "cs = k @ rest" "str_lower k = str_lower ps"
    by blast
  have "c # cs = (c # k) @ rest \<and> str_lower (c # k) = str_lower (p # ps)"
    using k lit by (simp add: str_lower_def literal_ignorecase_def)
  then show ?case by blast
qed

lemma lazy_group_until_split:
  "lazy_group_until b s = Some g \<Longrightarrow>
   \<exists>k post. s = g @ k @ post \<and> str_lower k = str_lower b"
proof (induction s arbitrary: g)
  case Nil
  then obtain rest where "match_literal b [] = Some rest" and "g = []"
    by (auto split: if_splits)
  then show ?case using match_literal_split by fastforce
next
  case (Cons c cs)
  show ?case
  proof (cases "match_literal b (c # cs)")
    case None
    then obtain g' where g': "lazy_group_until b cs = Some g'" "g = c # g'"
      using Cons.prems by auto
    from Cons.IH [OF g'(1)] obtain k post where "cs = g' @ k @ post" "str_lower k = str_lower b"
      by blast
    then have "c # cs = g @ k @ post \<and> str_lower k = str_lower b"
      using g'(2) by simp
    then show ?thesis by blast
  next
    case (Some rest)
    then have "g = []" using Cons.prems by simp
    then show ?thesis using match_literal_split [OF Some] by fastforce
  qed
qed

lemma match_between_split:
  assumes "match_between a b s = Some g"
  shows "\<exists>k1 k2 post. s = k1 @ g @ k2 @ post
           \<and> str_lower k1 = str_lower a \<and> str_lower k2 = str_lower b"
proof -
  obtain rest where r: "match_literal a s = Some rest" "lazy_group_until b rest = Some g"
    using assms by (auto simp: match_between_def split: option.splits)
  from match_literal_split [OF r(1)] obtain k1 where k1: "s = k1 @ rest" "str_lower k1 = str_lower a"
    by blast
  from lazy_group_until_split [OF r(2)] obtain k2 post
    where k2: "rest = g @ k2 @ post" "str_lower k2 = str_lower b"
    by blast
  show ?thesis using k1 k2 by blast
qed

lemma search_between_span:
  "search_between a b s = Some g \<Longrightarrow>
   \<exists>pre k1 k2 post. s = pre @ k1 @ g @ k2 @ post
      \<and> str_lower k1 = str_lower a \<and> str_lower k2 = str_lower b"
proof (induction s)
  case Nil
  then have "match_between a b [] = Some g" by simp
  from match_between_split [OF this] show ?case by (metis append_Nil)
next
  case (Cons c cs)
  show ?case
  proof (cases "match_between a b (c # cs)")
    case None
    then have "search_between a b cs = Some g" using Cons.prems by simp
    from Cons.IH [OF this] obtain pre k1 k2 post
      where "cs = pre @ k1 @ g @ k2 @ post" "str_lower k1 = str_lower a"
        "str_lower k2 = str_lower b"
      by blast
    then have "c # cs = (c # pre) @ k1 @ g @ k2 @ post
        \<and> str_lower k1 = str_lower a \<and> str_lower k2 = str_lower b"
      by simp
    then show ?thesis by blast
  next
    case (Some g')
    then have "match_between a b (c # cs) = Some g" using Cons.prems by simp
    from match_between_split [OF this] show ?thesis by (metis append_Nil)
  qed
qed

subsection \<open>The lines of a reply\<close>

text \<open>
  Joining lines with line feeds and splitting again gives the lines back, when no line
  holds a line boundary and the last one is not empty. So for a reply written as such
  lines the excerpt of the fallback is the join of the first five of them.
\<close>

lemma not_linebreak_not_cr: "\<not> is_linebreak c \<Longrightarrow> c \<noteq> CHR 0x0D"
  by (auto simp: is_linebreak_def line_boundaries_def)

lemma linebreak_lf: "is_linebreak (CHR 0x0A)"
  by (simp add: is_linebreak_def line_boundaries_def)

lemma splitlines_plain_line:
  "l \<noteq> [] \<Longrightarrow> \<forall>c \<in> set l. \<not> is_linebreak c \<Longrightarrow> str_splitlines l = [l]"
proof (induction l)
  case Nil
  then show ?case by simp
next
  case (Cons c l)
  have nc: "\<not> is_linebreak c" using Cons.prems by simp
  show ?case
  proof (cases l)
    case Nil
    then show ?thesis using nc by simp
  next
    case (Cons d ds)
    then have "str_splitlines (d # ds) = [d # ds]"
      using Cons.IH Cons.prems by simp
    then show ?thesis
      using Cons nc not_linebreak_not_cr [OF nc] by simp
  qed
qed

lemma splitlines_line_then_rest:
  "\<forall>c \<in> set l. \<not> is_linebreak c \<Longrightarrow>
   str_splitlines (l @ CHR 0x0A # s) = l # str_splitlines s"
proof (induction l)
  case Nil
  show ?case by (cases s) (simp_all add: linebreak_lf)
next
  case (Cons c l)
  have nc: "\<not> is_linebreak c" using Cons.prems by simp
  have ih: "str_splitlines (l @ CHR 0x0A # s) = l # str_splitlines s"
    using Cons by simp
  obtain d ds where dd: "l @ CHR 0x0A # s = d # ds"
    by (cases "l @ CHR 0x0A # s") auto
  have "str_splitlines (c # d # ds) = (c # l) # str_splitlines s"
    using nc not_linebreak_not_cr [OF nc] ih dd by simp
  then show ?case using dd by simp
qed

lemma splitlines_join_nl:
  "ls \<noteq> [] \<Longrightarrow> last ls \<noteq> [] \<Longrightarrow>
   \<forall>l \<in> set ls. \<forall>c \<in> set l. \<not> is_linebreak c \<Longrightarrow>
   str_splitlines (join_nl ls) = ls"
proof (induction ls rule: join_nl.induct)
  case 1
  then show ?case by simp
next
  case (2 x)
  then show ?case using splitlines_plain_line [of x] by simp
next
  case (3 x y ys)
  have "last (y # ys) \<noteq> []" using 3(3) by simp
  moreover have "\<forall>l \<in> set (y # ys). \<forall>c \<in> set l. \<not> is_linebreak c" using 3(4) by simp
  ultimately have "str_splitlines (join_nl (y # ys)) = y # ys"
    using 3(1) by blast
  moreover have "str_splitlines (x @ CHR 0x0A # join_nl (y # ys)) =
      x # str_splitlines (join_nl (y # ys))"
    using 3(4) by (intro splitlines_line_then_rest) simp
  ultimately show ?case by simp
qed

lemma first_five_of_plain_lines:
  assumes "ls \<noteq> []" and "last ls \<noteq> []"
      and "\<forall>l \<in> set ls. \<forall>c \<in> set l. \<not> is_linebreak c"
  shows "first_few_lines (join_nl ls) = join_nl (take 5 ls)"
  using assms by (simp add: first_few_lines_def splitlines_join_nl)

section \<open>Properties of the parser\<close>

text \<open>
  C1. The reply of the round-trip scenario, with its line feeds, parses to the summary
  \<^verbatim>\<open>Team agreed on plan.\<close>, the two decisions \<^verbatim>\<open>Ship v2\<close> and \<^verbatim>\<open>Delay v3\<close>, and the
  one action item.
\<close>

theorem round_trip_reply:
  "parse_llm_response (PyStr ''Summary:\<newline>Team agreed on plan.\<newline>\<newline>Key Decisions:\<newline>* Ship v2\<newline>* Delay v3\<newline>\<newline>Action Items:\<newline>* Task: write docs, Assigned to: Dana, Deadline: Friday'')
   = \<lparr>summary = ''Team agreed on plan.'',
      decisions = [''Ship v2'', ''Delay v3''],
      action_items = [''Task: write docs, Assigned to: Dana, Deadline: Friday'']\<rparr>"
  by code_simp

text \<open>
  C2. A decisions span that is \<^verbatim>\<open>none\<close> after trimming and lowering should give
  the list \<^verbatim>\<open>None identified.\<close>. The return statement tells a parse error from the
  text of the summary, by its first words, and so mistakes a summary that the reply itself
  begins with \<^verbatim>\<open>Error parsing\<close> for the message of the \<^verbatim>\<open>except\<close> clause. On
  this reply the block does not raise, the span between the two markers is \<^verbatim>\<open>None\<close>,
  and the returned decisions hold the empty string.
\<close>

theorem none_span_gets_empty_string:
  "try_block (PyStr error_summary_reply) = Inr (extract_sections error_summary_reply)
   \<and> search_between ''Key Decisions:'' ''Action Items:'' error_summary_reply = Some '' None ''
   \<and> str_lower (str_strip '' None '') = ''none''
   \<and> parse_llm_response (PyStr error_summary_reply) =
       \<lparr>summary = ''Error parsing failed'', decisions = [''''], action_items = ['''']\<rparr>"
proof -
  have t: "try_block (PyStr error_summary_reply) = Inr (extract_sections error_summary_reply)"
    by (simp add: try_block_def)
  have s: "search_between ''Key Decisions:'' ''Action Items:'' error_summary_reply
             = Some '' None ''"
    by code_simp
  have n: "str_lower (str_strip '' None '') = ''none''"
    by code_simp
  have p: "parse_llm_response (PyStr error_summary_reply) =
       \<lparr>summary = ''Error parsing failed'', decisions = [''''], action_items = ['''']\<rparr>"
    by code_simp
  show ?thesis
    using t s n p by simp
qed

text \<open>
  Where the returned summary does not begin with those words the list is
  \<^verbatim>\<open>None identified.\<close>, for every reply with such a span.
\<close>

lemma none_decisions_ordinary_summary:
  assumes "search_between ''Key Decisions:'' ''Action Items:'' r = Some g"
      and "str_lower (str_strip g) = ''none''"
      and "\<not> str_startswith (summary (parse_llm_response (PyStr r))) ''Error parsing''"
  shows "decisions (parse_llm_response (PyStr r)) = [''None identified.'']"
  using assms
  by (simp add: decisions_parse_llm_response summary_parse_llm_response locals_at_return_str
      decisions_extract_sections section_items_none placeholder_def)



text \<open>Whatever the argument, the two returned lists are not empty.\<close>

lemma returned_lists_nonempty:
  "decisions (parse_llm_response v) \<noteq> [] \<and> action_items (parse_llm_response v) \<noteq> []"
  by (simp add: parse_llm_response_def Let_def)

text \<open>
  C4. An empty list should become \<^verbatim>\<open>None identified.\<close> unless there was a parse
  error. On this reply the \<^verbatim>\<open>try\<close> block does not raise and both lists are empty
  at the return, yet both come back as the list of one empty string, the stand-in for a
  parse error: the summary taken from the reply begins with \<^verbatim>\<open>Error parsing\<close>,
  which is all the return statement looks at.
\<close>

theorem stand_in_misfires_without_exception:
  "try_block (PyStr budget_reply) = Inr (extract_sections budget_reply)
   \<and> locals_at_return (PyStr budget_reply) =
       \<lparr>summary = ''Error parsing the budget file was discussed.'',
        decisions = [], action_items = []\<rparr>
   \<and> parse_llm_response (PyStr budget_reply) =
       \<lparr>summary = ''Error parsing the budget file was discussed.'',
        decisions = [''''], action_items = ['''']\<rparr>"
proof -
  have t: "try_block (PyStr budget_reply) = Inr (extract_sections budget_reply)"
    by (simp add: try_block_def)
  have l: "locals_at_return (PyStr budget_reply) =
       \<lparr>summary = ''Error parsing the budget file was discussed.'',
        decisions = [], action_items = []\<rparr>"
    by code_simp
  have p: "parse_llm_response (PyStr budget_reply) =
       \<lparr>summary = ''Error parsing the budget file was discussed.'',
        decisions = [''''], action_items = ['''']\<rparr>"
    by (simp add: parse_llm_response_def l placeholder_def str_startswith_def)
  show ?thesis
    using t l p by simp
qed

text \<open>
  C5. When the \<^verbatim>\<open>try\<close> block raises, the parser still returns a record: its summary
  is the fixed message \<^verbatim>\<open>Error parsing LLM output. Raw output might be available in logs.\<close>
  and both lists are the stand-in for a parse error, the list of one empty string. The
  block raises only in its first statement, before any list is assigned, so nothing
  extracted earlier can be in them.
\<close>

theorem parse_exception_caught:
  assumes "try_block v = Inl (e, l)"
  shows "parse_llm_response v =
           \<lparr>summary = ''Error parsing LLM output. Raw output might be available in logs.'',
            decisions = [''''], action_items = ['''']\<rparr>"
proof -
  have raised: "try_block v = Inl (TypeError, initial_locals)"
    using assms by (cases v) (simp_all add: try_block_def)
  show ?thesis
    by (simp add: parse_llm_response_def locals_at_return_def raised initial_locals_def
        placeholder_parse_error Let_def)
qed

text \<open>The argument \<^verbatim>\<open>None\<close> makes the block raise.\<close>

theorem parse_exception_caught_witness:
  "try_block PyNone = Inl (TypeError, initial_locals)
   \<and> parse_llm_response PyNone =
       \<lparr>summary = ''Error parsing LLM output. Raw output might be available in logs.'',
        decisions = [''''], action_items = ['''']\<rparr>"
proof -
  have h: "try_block PyNone = Inl (TypeError, initial_locals)"
    by (simp add: try_block_def)
  show ?thesis
    using h parse_exception_caught [OF h] by simp
qed

section \<open>Properties of the caller\<close>

text \<open>
  C6. When the key is missing or empty, or the client library has no
  \<^verbatim>\<open>GenerativeModel\<close>, or the call to the service raises, \<^verbatim>\<open>call_ai_service\<close>
  returns a record whose two lists are empty (not the parser's one-element stand-in) and
  whose summary is \<^verbatim>\<open>AI service is not configured.\<close> in the first two cases and
  \<^verbatim>\<open>Error communicating with AI service: \<close> followed by the text of the exception in
  the third.
\<close>

theorem api_failure_result:
  assumes "\<not> api_key_set cfg \<or> \<not> has_generative_model cfg \<or> generate t = GeminiRaises msg"
  shows "call_ai_service cfg generate t =
           Inr \<lparr>summary =
                  (if \<not> api_key_set cfg \<or> \<not> has_generative_model cfg
                   then ''AI service is not configured.''
                   else ''Error communicating with AI service: '' @ msg),
                decisions = [], action_items = []\<rparr>"
  using assms by (auto simp: call_ai_service_def)

text \<open>A service that is down behind a configured key, and a missing key.\<close>

theorem api_failure_result_witness:
  "api_key_set cfg_with_key \<and> has_generative_model cfg_with_key
   \<and> service_down (PyStr ''Alice: ship it.'') = GeminiRaises ''503 Service Unavailable''
   \<and> call_ai_service cfg_with_key service_down (PyStr ''Alice: ship it.'') =
       Inr \<lparr>summary = ''Error communicating with AI service: 503 Service Unavailable'',
            decisions = [], action_items = []\<rparr>
   \<and> \<not> api_key_set cfg_unconfigured
   \<and> call_ai_service cfg_unconfigured service_down (PyStr ''Alice: ship it.'') =
       Inr \<lparr>summary = ''AI service is not configured.'',
            decisions = [], action_items = []\<rparr>"
proof -
  have k: "api_key_set cfg_with_key \<and> has_generative_model cfg_with_key"
    by (simp add: api_key_set_def cfg_with_key_def)
  have d: "service_down (PyStr ''Alice: ship it.'') = GeminiRaises ''503 Service Unavailable''"
    by (simp add: service_down_def)
  have u: "\<not> api_key_set cfg_unconfigured"
    by (simp add: api_key_set_def cfg_unconfigured_def)
  have h1: "\<not> api_key_set cfg_with_key \<or> \<not> has_generative_model cfg_with_key
            \<or> service_down (PyStr ''Alice: ship it.'') = GeminiRaises ''503 Service Unavailable''"
    using d by simp
  have h2: "\<not> api_key_set cfg_unconfigured \<or> \<not> has_generative_model cfg_unconfigured
            \<or> service_down (PyStr ''Alice: ship it.'') = GeminiRaises ''503 Service Unavailable''"
    using u by simp
  show ?thesis
    using k d u
      api_failure_result [of cfg_with_key service_down "PyStr ''Alice: ship it.''"
        "''503 Service Unavailable''", OF h1]
      api_failure_result [of cfg_unconfigured service_down "PyStr ''Alice: ship it.''"
        "''503 Service Unavailable''", OF h2]
    by simp
qed

section \<open>Properties of the handler\<close>

lemma call_ai_service_returns:
  "\<exists>ai_results. call_ai_service cfg generate t = Inr ai_results"
  by (simp add: call_ai_service_def split: gemini_outcome.split)

lemma summarize_truthy:
  "truthy t \<Longrightarrow> call_ai_service cfg generate t = Inr res \<Longrightarrow>
   summarize cfg generate t = (ResultBody res, 200)"
  by (simp add: summarize_def)

lemma file_source_truthy: "truthy t \<Longrightarrow> file_source req t = Continues t"
  by (simp add: file_source_def)

lemma form_source_truthy: "truthy t \<Longrightarrow> form_source req t = t"
  by (simp add: form_source_def)

lemma handler_with_text:
  assumes "json_source req PyNone = Continues t1"
      and "truthy (form_source req t1)"
      and "call_ai_service cfg generate (form_source req t1) = Inr res"
  shows "summarize_transcript cfg generate req = Inr (ResultBody res, 200)"
  using assms by (simp add: summarize_transcript_def file_source_truthy summarize_truthy)

lemma json_source_text:
  assumes "is_json req" and "get_json req = Inr (PyDict items)"
      and "map_of items ''transcript_text'' = Some v"
  shows "json_source req t = Continues v"
proof -
  have "items \<noteq> []" using assms(3) by auto
  then show ?thesis using assms by (simp add: json_source_def)
qed

lemma pdf_not_allowed: "\<not> allowed_file ''notes.pdf''"
  by code_simp

lemma txt_allowed: "allowed_file ''notes.txt''"
  by code_simp

text \<open>
  C7, as the code has it. The file is looked at only when the JSON body and the form
  field have given no transcript text. For every request in which the JSON step goes on
  with a value, that value and the form field leave \<^verbatim>\<open>transcript_text\<close> empty, and a
  \<^verbatim>\<open>transcript_file\<close> with a name that is not empty and not allowed is uploaded, the
  handler answers 400 with the invalid-file-type message.
\<close>

theorem disallowed_file_rejected:
  assumes "json_source req PyNone = Continues t1"
      and "\<not> truthy (form_source req t1)"
      and "map_of (files req) ''transcript_file'' = Some file"
      and "filename file \<noteq> []"
      and "\<not> allowed_file (filename file)"
  shows "summarize_transcript cfg generate req =
           Inr (ErrorBody
             ''Invalid file type. Please upload a .txt file or provide text via 'transcript_text'.'',
             400)"
  using assms by (simp add: summarize_transcript_def file_source_def)

text \<open>A multipart request that carries only \<^verbatim>\<open>notes.pdf\<close>.\<close>

theorem disallowed_file_rejected_witness:
  "json_source pdf_only PyNone = Continues PyNone
   \<and> \<not> truthy (form_source pdf_only PyNone)
   \<and> map_of (files pdf_only) ''transcript_file'' = Some pdf_upload
   \<and> filename pdf_upload = ''notes.pdf''
   \<and> \<not> allowed_file (filename pdf_upload)
   \<and> summarize_transcript cfg_with_key service_down pdf_only =
       Inr (ErrorBody
         ''Invalid file type. Please upload a .txt file or provide text via 'transcript_text'.'',
         400)"
proof -
  have h1: "json_source pdf_only PyNone = Continues PyNone"
    by (simp add: json_source_def pdf_only_def)
  have h2: "\<not> truthy (form_source pdf_only PyNone)"
    by (simp add: form_source_def pdf_only_def)
  have h3: "map_of (files pdf_only) ''transcript_file'' = Some pdf_upload"
    by (simp add: pdf_only_def)
  have n: "filename pdf_upload = ''notes.pdf''"
    by (simp add: pdf_upload_def)
  have h4: "filename pdf_upload \<noteq> []"
    by (simp add: n)
  have h5: "\<not> allowed_file (filename pdf_upload)"
    by (simp add: n pdf_not_allowed)
  show ?thesis
    using h1 h2 h3 n h5
      disallowed_file_rejected [OF h1 h2 h3 h4 h5, of cfg_with_key service_down]
    by simp
qed

text \<open>
  The claim as stated fails when a form field is present as well: the same
  \<^verbatim>\<open>notes.pdf\<close> next to a form \<^verbatim>\<open>transcript_text\<close> is never looked at, and the
  handler answers 200 with the result of the caller.
\<close>

theorem disallowed_file_counterexample:
  "map_of (files pdf_with_form_text) ''transcript_file'' = Some pdf_upload
   \<and> filename pdf_upload = ''notes.pdf''
   \<and> \<not> allowed_file (filename pdf_upload)
   \<and> summarize_transcript cfg_with_key service_down pdf_with_form_text =
       Inr (ResultBody
         \<lparr>summary = ''Error communicating with AI service: 503 Service Unavailable'',
          decisions = [], action_items = []\<rparr>, 200)"
proof -
  have h3: "map_of (files pdf_with_form_text) ''transcript_file'' = Some pdf_upload"
    by (simp add: pdf_with_form_text_def)
  have n: "filename pdf_upload = ''notes.pdf''"
    by (simp add: pdf_upload_def)
  have js: "json_source pdf_with_form_text PyNone = Continues PyNone"
    by (simp add: json_source_def pdf_with_form_text_def)
  have st: "str_strip ''Alice: ship it.'' = ''Alice: ship it.''"
    by code_simp
  have fs: "form_source pdf_with_form_text PyNone = PyStr ''Alice: ship it.''"
    by (simp add: form_source_def pdf_with_form_text_def st)
  have c: "call_ai_service cfg_with_key service_down (PyStr ''Alice: ship it.'') =
       Inr \<lparr>summary = ''Error communicating with AI service: 503 Service Unavailable'',
            decisions = [], action_items = []\<rparr>"
    by (simp add: call_ai_service_def cfg_with_key_def service_down_def api_key_set_def)
  have "summarize_transcript cfg_with_key service_down pdf_with_form_text =
       Inr (ResultBody
         \<lparr>summary = ''Error communicating with AI service: 503 Service Unavailable'',
          decisions = [], action_items = []\<rparr>, 200)"
    by (rule handler_with_text [OF js]) (simp_all add: fs c)
  then show ?thesis
    using h3 n pdf_not_allowed by simp
qed

text \<open>
  C8. A 500 response should carry a generic message; the comment above the last
  \<^verbatim>\<open>return\<close> of the handler says so, and that branch does it. The branch for a file
  that cannot be read does not: its body is \<^verbatim>\<open>Error processing file: \<close> followed by
  the text of the exception. Here the upload is \<^verbatim>\<open>notes.txt\<close> with bytes that are not
  UTF-8, and the decoder's message reaches the client.
\<close>

theorem file_error_leaks_exception_text:
  "summarize_transcript cfg generate undecodable_txt =
     Inr (ErrorBody
       (''Error processing file: '' @
        '''utf-8' codec can't decode byte 0xff in position 0: invalid start byte''), 500)"
  by (simp add: summarize_transcript_def json_source_def form_source_def file_source_def
      undecodable_txt_def txt_allowed)

text \<open>
  C9. When the body is JSON with a \<^verbatim>\<open>transcript_text\<close> that is a string and not empty,
  and the form has a \<^verbatim>\<open>transcript_text\<close> that is not empty either, the handler calls
  the caller on the JSON value and answers 200 with its result; putting any other form
  in the request changes nothing.
\<close>

theorem json_text_has_priority:
  assumes "is_json req"
      and "get_json req = Inr (PyDict items)"
      and "map_of items ''transcript_text'' = Some (PyStr j)"
      and "j \<noteq> []"
      and "map_of (form req) ''transcript_text'' = Some f"
      and "f \<noteq> []"
  shows "\<exists>ai_results.
           call_ai_service cfg generate (PyStr j) = Inr ai_results
           \<and> summarize_transcript cfg generate req = Inr (ResultBody ai_results, 200)
           \<and> summarize_transcript cfg generate (req\<lparr>form := other_form\<rparr>) =
               Inr (ResultBody ai_results, 200)"
proof -
  obtain res where res: "call_ai_service cfg generate (PyStr j) = Inr res"
    using call_ai_service_returns by blast
  have js: "json_source req PyNone = Continues (PyStr j)"
    using assms(1-3) by (rule json_source_text)
  have js': "json_source (req\<lparr>form := other_form\<rparr>) PyNone = Continues (PyStr j)"
    using assms(1-3) by (intro json_source_text [where items = items]) simp_all
  have t: "truthy (PyStr j)"
    using assms(4) by simp
  have "summarize_transcript cfg generate req = Inr (ResultBody res, 200)"
    using t res by (intro handler_with_text [OF js]) (simp_all add: form_source_truthy)
  moreover have "summarize_transcript cfg generate (req\<lparr>form := other_form\<rparr>) =
      Inr (ResultBody res, 200)"
    using t res by (intro handler_with_text [OF js']) (simp_all add: form_source_truthy)
  ultimately show ?thesis
    using res by blast
qed

text \<open>A request with \<^verbatim>\<open>from json\<close> in the body and \<^verbatim>\<open>from form\<close> in the form.\<close>

theorem json_text_has_priority_witness:
  "is_json json_and_form
   \<and> get_json json_and_form = Inr (PyDict [(''transcript_text'', PyStr ''from json'')])
   \<and> map_of (form json_and_form) ''transcript_text'' = Some ''from form''
   \<and> (\<exists>ai_results.
         call_ai_service cfg_with_key service_down (PyStr ''from json'') = Inr ai_results
         \<and> summarize_transcript cfg_with_key service_down json_and_form =
             Inr (ResultBody ai_results, 200)
         \<and> summarize_transcript cfg_with_key service_down (json_and_form\<lparr>form := []\<rparr>) =
             Inr (ResultBody ai_results, 200))"
proof -
  have h1: "is_json json_and_form"
    by (simp add: json_and_form_def)
  have h2: "get_json json_and_form = Inr (PyDict [(''transcript_text'', PyStr ''from json'')])"
    by (simp add: json_and_form_def)
  have h3: "map_of [(''transcript_text'', PyStr ''from json'')] ''transcript_text'' =
      Some (PyStr ''from json'')"
    by simp
  have h4: "''from json'' \<noteq> []"
    by simp
  have h5: "map_of (form json_and_form) ''transcript_text'' = Some ''from form''"
    by (simp add: json_and_form_def)
  have h6: "''from form'' \<noteq> []"
    by simp
  show ?thesis
    using h1 h2 h5
      json_text_has_priority [OF h1 h2 h3 h4 h5 h6, of cfg_with_key service_down "[]"]
    by simp
qed

text \<open>
  C10. The two sources are checked differently. A request that is not JSON, has no
  \<^verbatim>\<open>transcript_file\<close> and whose form \<^verbatim>\<open>transcript_text\<close> is only white space is
  answered 400 with the no-content message, because the form value is stripped first. A
  JSON body whose \<^verbatim>\<open>transcript_text\<close> is a string of white space only is not stripped:
  the handler calls the caller on that very string and answers 200 with its result.
\<close>

theorem emptiness_check_asymmetric:
  "(\<not> is_json form_req
      \<and> map_of (form form_req) ''transcript_text'' = Some w
      \<and> str_strip w = []
      \<and> map_of (files form_req) ''transcript_file'' = None
    \<longrightarrow> summarize_transcript cfg generate form_req =
          Inr (ErrorBody
            ''No transcript content provided. Use 'transcript_text' in JSON/form or 'transcript_file' for file upload.'',
            400))
   \<and> (is_json json_req
      \<and> get_json json_req = Inr (PyDict items)
      \<and> map_of items ''transcript_text'' = Some (PyStr w')
      \<and> w' \<noteq> [] \<and> str_strip w' = []
    \<longrightarrow> (\<exists>ai_results.
           call_ai_service cfg generate (PyStr w') = Inr ai_results
           \<and> summarize_transcript cfg generate json_req = Inr (ResultBody ai_results, 200)))"
proof (intro conjI impI)
  assume a: "\<not> is_json form_req
      \<and> map_of (form form_req) ''transcript_text'' = Some w
      \<and> str_strip w = []
      \<and> map_of (files form_req) ''transcript_file'' = None"
  then show "summarize_transcript cfg generate form_req =
          Inr (ErrorBody
            ''No transcript content provided. Use 'transcript_text' in JSON/form or 'transcript_file' for file upload.'',
            400)"
    by (simp add: summarize_transcript_def json_source_def form_source_def file_source_def
        summarize_def)
next
  assume b: "is_json json_req
      \<and> get_json json_req = Inr (PyDict items)
      \<and> map_of items ''transcript_text'' = Some (PyStr w')
      \<and> w' \<noteq> [] \<and> str_strip w' = []"
  obtain res where res: "call_ai_service cfg generate (PyStr w') = Inr res"
    using call_ai_service_returns by blast
  have js: "json_source json_req PyNone = Continues (PyStr w')"
    using b by (intro json_source_text [where items = items]) simp_all
  have "summarize_transcript cfg generate json_req = Inr (ResultBody res, 200)"
    using b res by (intro handler_with_text [OF js]) (simp_all add: form_source_truthy)
  then show "\<exists>ai_results.
           call_ai_service cfg generate (PyStr w') = Inr ai_results
           \<and> summarize_transcript cfg generate json_req = Inr (ResultBody ai_results, 200)"
    using res by blast
qed

text \<open>Three spaces in the form alone, and three spaces in a JSON body.\<close>

theorem emptiness_check_asymmetric_witness:
  "\<not> is_json blank_form_only
   \<and> map_of (form blank_form_only) ''transcript_text'' = Some ''   ''
   \<and> str_strip ''   '' = []
   \<and> map_of (files blank_form_only) ''transcript_file'' = None
   \<and> summarize_transcript cfg_with_key service_down blank_form_only =
          Inr (ErrorBody
            ''No transcript content provided. Use 'transcript_text' in JSON/form or 'transcript_file' for file upload.'',
            400)
   \<and> is_json blank_json
   \<and> get_json blank_json = Inr (PyDict [(''transcript_text'', PyStr ''   '')])
   \<and> (\<exists>ai_results.
         call_ai_service cfg_with_key service_down (PyStr ''   '') = Inr ai_results
         \<and> summarize_transcript cfg_with_key service_down blank_json =
             Inr (ResultBody ai_results, 200))"
proof -
  have f1: "\<not> is_json blank_form_only"
    by (simp add: blank_form_only_def)
  have f2: "map_of (form blank_form_only) ''transcript_text'' = Some ''   ''"
    by (simp add: blank_form_only_def)
  have f3: "str_strip ''   '' = []"
    by code_simp
  have f4: "map_of (files blank_form_only) ''transcript_file'' = None"
    by (simp add: blank_form_only_def)
  have j1: "is_json blank_json"
    by (simp add: blank_json_def)
  have j2: "get_json blank_json = Inr (PyDict [(''transcript_text'', PyStr ''   '')])"
    by (simp add: blank_json_def)
  have j3: "map_of [(''transcript_text'', PyStr ''   '')] ''transcript_text'' =
      Some (PyStr ''   '')"
    by simp
  have j4: "''   '' \<noteq> []"
    by simp
  show ?thesis
    using f1 f2 f3 f4 j1 j2 j3 j4
      emptiness_check_asymmetric [of blank_form_only "''   ''" cfg_with_key service_down
        blank_json "[(''transcript_text'', PyStr ''   '')]" "''   ''"]
    by simp
qed

end
